theory Spec2Isabelle
  imports Complex_Main "HOL-Library.Word"
begin

section \<open>Go values\<close>

text \<open>
  An \<open>error\<close> value is identified by its message. \<open>errors.WithMessage(err, msg)\<close> of
  github.com/pkg/errors yields an error whose message is \<open>msg: err\<close>.
\<close>

type_synonym go_error = string

definition WithMessage :: "go_error \<Rightarrow> string \<Rightarrow> go_error" where
  "WithMessage err message = message @ '': '' @ err"

text \<open>
  Run-time panics of the Go code: an index out of range, a failed type assertion, the
  dereference of a nil pointer.
\<close>

datatype panic = IndexOutOfRange | InterfaceConversion | NilPointerDereference

text \<open>
  \<open>interface{}\<close> as it occurs in an unstructured object: nil, booleans, numbers (64-bit
  integers, or floats, given by their value), strings, slices and
  \<open>map[string]interface{}\<close>. A map is the list of its entries; a key is looked up with
  \<open>map_of\<close>.
\<close>

datatype val =
    VNil
  | VBool bool
  | VInt "64 word"
  | VFloat real
  | VStr string
  | VSlice "val list"
  | VMap "(string \<times> val) list"

type_synonym tree = "(string \<times> val) list"

text \<open>
  \<open>map[string]string\<close>: the entries in the order in which \<open>range\<close> visits them. Reading
  a key that is absent yields the zero value, the empty string.
\<close>

type_synonym go_map = "(string \<times> string) list"

definition go_index :: "go_map \<Rightarrow> string \<Rightarrow> string" where
  "go_index b k = (case map_of b k of None \<Rightarrow> '''' | Some v \<Rightarrow> v)"

definition newline :: string where
  "newline = [CHR 0x0A]"

fun Join :: "string list \<Rightarrow> string \<Rightarrow> string" where
  "Join [] sep = ''''"
| "Join [x] sep = x"
| "Join (x # y # xs) sep = x @ sep @ Join (y # xs) sep"

section \<open>isSubset\<close>

text \<open>
  \<^verbatim>\<open>
  // Checks if a is subset of b
  func isSubset(a, b map[string]string) bool {
      for k, v := range a {
          if v != b[k] { return false }
      }
      return true
  }
  \<close>
\<close>

fun isSubset :: "go_map \<Rightarrow> go_map \<Rightarrow> bool" where
  "isSubset [] b = True"
| "isSubset ((k, v) # a) b = (if v \<noteq> go_index b k then False else isSubset a b)"

text \<open>
  The subset relation in the words of the specification: every key present in \<open>a\<close> also
  exists as a key of \<open>b\<close>, with an equal value.
\<close>

definition spec_subset :: "go_map \<Rightarrow> go_map \<Rightarrow> bool" where
  "spec_subset a b = list_all (\<lambda>(k, v). map_of b k = Some v) a"

section \<open>Rule selection\<close>

text \<open>
  A parsed template set associates names with template bodies; \<open>tmpl.Lookup(name)\<close>
  returns the template of that name or nil.
  \<^verbatim>\<open>
  func findTemplateName(tmpl *template.Template, kind string) string {
      var kindTemplateName string
      if t := tmpl.Lookup(kind); t != nil {
          kindTemplateName = kind
      } else {
          kindTemplateName = "DefaultResource"
      }
      return kindTemplateName
  }
  \<close>
\<close>

type_synonym 'b Template = "(string \<times> 'b) list"

definition Lookup :: "'b Template \<Rightarrow> string \<Rightarrow> 'b option" where
  "Lookup tmpl name = map_of tmpl name"

definition findTemplateName :: "'b Template \<Rightarrow> string \<Rightarrow> string" where
  "findTemplateName tmpl kind =
     (case Lookup tmpl kind of Some t \<Rightarrow> kind | None \<Rightarrow> ''DefaultResource'')"

section \<open>Queries, objects and the cluster\<close>

text \<open>
  The fields of \<open>ResourceStatusQuery\<close>. Its \<open>clientGetter\<close>, the handle through which the
  cluster is reached, is the environment \<open>kube\<close> below.
\<close>

record ResourceStatusQuery =
  namespace :: string
  allNamespaces :: bool
  enforceNamespace :: bool
  filenames :: "string list"
  selector :: string
  fieldSelector :: string
  args :: "string list"

text \<open>
  A \<open>runtime.Object\<close> with the kind that \<open>GetObjectKind().GroupVersionKind().Kind\<close>
  reports, and a \<open>resource.Info\<close> holding one.
\<close>

record runtime_Object =
  ObjectKind :: string
  ObjectContent :: tree

record Info =
  Object :: runtime_Object

text \<open>
  What a chain of calls on \<open>resource.NewBuilder\<close> has set when \<open>Do()\<close> is called.
  \<open>Unstructured()\<close>, \<open>ContinueOnError()\<close> and \<open>Flatten()\<close> are part of every chain of the
  program. \<open>Do()\<close> returns a \<open>resource.Result\<close>, read with \<open>Err()\<close> and \<open>Infos()\<close>.
\<close>

record Builder =
  NamespaceParam :: string
  DefaultNamespace :: bool
  AllNamespaces :: bool
  FilenameParam :: "(bool \<times> string list) option"
  LabelSelectorParam :: "string option"
  FieldSelectorParam :: "string option"
  ResourceTypeOrNameArgs :: "string list option"
  Latest :: bool

definition NewBuilder :: Builder where
  "NewBuilder = \<lparr>NamespaceParam = [], DefaultNamespace = False, AllNamespaces = False,
     FilenameParam = None, LabelSelectorParam = None, FieldSelectorParam = None,
     ResourceTypeOrNameArgs = None, Latest = False\<rparr>"

record Result =
  Err :: "go_error option"
  Infos :: "go_error + Info list"

record Service =
  ServiceName :: string
  Type :: string
  Selector :: go_map

type_synonym rest_Config = string

text \<open>
  The functions that \<open>RenderResource\<close> registers per kind (their bodies are in other files
  of the package), and the functions that \<open>renderTemplateForMap\<close> binds to a query.
\<close>

datatype inject_func =
    includePodDetailsOnNode
  | includeNodeStatsSummary
  | includePodMetrics
  | includeStatefulSetDiff
  | includeIngressServices

datatype data_func =
    kubeGet
  | kubeGetByLabelsMap
  | kubeGetServicesMatchingPod
  | kubeGetFirst
  | includeObj
  | includeOwners
  | getEvents

text \<open>
  The execution of a template on an object, as the engine of \<open>text/template\<close> drives it:
  it ends with the text written and possibly an error, or it has written some text and
  calls one of the data functions of the function map, continuing with the value returned.
\<close>

datatype exec =
    Done string "go_error option"
  | Call string data_func "val list" "val \<Rightarrow> exec"

type_synonym rule = "tree \<Rightarrow> exec"

text \<open>
  The collaborators outside the program: the cluster behind the resource builder and the
  client set, the converters of apimachinery, the embedded file system with the template
  text, the template parser, the local file system and the YAML decoder.
  \<open>inject k f\<close> is the body of the per-kind function \<open>f\<close>: an error, or the tree with its
  additions. \<open>call k q f a\<close> is what the closure that the query \<open>q\<close> binds to the data
  function \<open>f\<close> yields on the arguments \<open>a\<close> when the template engine calls it: a value,
  or the failure that ends the execution. \<open>ReadFile k name\<close> is the content read, empty
  when the file cannot be read.
\<close>

record kube =
  Do :: "Builder \<Rightarrow> Result"
  ToUnstructured :: "runtime_Object \<Rightarrow> go_error + tree"
  ToRESTConfig :: "go_error + rest_Config"
  inject :: "inject_func \<Rightarrow> runtime_Object \<Rightarrow> rest_Config \<Rightarrow> tree \<Rightarrow> go_error + tree"
  ListServices :: "string \<Rightarrow> Service list"
  ServiceToUnstructured :: "Service \<Rightarrow> tree"
  PodLabels :: "tree \<Rightarrow> go_map"
  Sprintf_s :: "val \<Rightarrow> string"
  sfs_New :: "go_error option"
  statikFS_Open :: "string \<Rightarrow> go_error option"
  ReadAll :: "string \<Rightarrow> go_error + string"
  Parse :: "string \<Rightarrow> go_error + rule Template"
  call :: "ResourceStatusQuery \<Rightarrow> data_func \<Rightarrow> val list \<Rightarrow> go_error + val"
  ReadFile :: "string \<Rightarrow> string"
  Unmarshal :: "string \<Rightarrow> go_error + tree"

text \<open>
  The state the program changes: the standard output, the package-level \<open>funcMap\<close>
  (for each data function the query it is bound to, if any), and the record of the
  per-kind functions invoked and of the calls of query-bound data functions.
\<close>

datatype event =
    Invoked inject_func
  | BoundCall ResourceStatusQuery data_func "val list"

record world =
  stdout :: string
  funcMap :: "data_func \<Rightarrow> ResourceStatusQuery option"
  trace :: "event list"

definition Printf :: "string \<Rightarrow> world \<Rightarrow> world" where
  "Printf s w = w\<lparr>stdout := stdout w @ s\<rparr>"

definition record_event :: "event \<Rightarrow> world \<Rightarrow> world" where
  "record_event e w = w\<lparr>trace := trace w @ [e]\<rparr>"

section \<open>Resolving the queried resources\<close>

text \<open>
  \<^verbatim>\<open>
  func (q ResourceStatusQuery) resolveResourceInfos(resourceResult *resource.Result) ([]*resource.Info, error) {
      err := resourceResult.Err()
      if err != nil {
          return nil, errors.WithMessage(err, "Failed during querying of resources")
      }
      resourceInfos, err := resourceResult.Infos()
      if err != nil {
          return nil, errors.WithMessage(err, "Failed getting resource  infos")
      }
      return resourceInfos, nil
  }
  \<close>
\<close>

definition resolveResourceInfos :: "Result \<Rightarrow> go_error + Info list" where
  "resolveResourceInfos resourceResult =
     (case Err resourceResult of
        Some err \<Rightarrow> Inl (WithMessage err ''Failed during querying of resources'')
      | None \<Rightarrow>
          (case Infos resourceResult of
             Inl err \<Rightarrow> Inl (WithMessage err ''Failed getting resource  infos'')
           | Inr resourceInfos \<Rightarrow> Inr resourceInfos))"

text \<open>
  \<open>getQueriedResources\<close> builds the request from all fields of the query. When the result
  is empty it prints one of two notices and still returns without an error.
\<close>

definition query_Builder :: "ResourceStatusQuery \<Rightarrow> Builder" where
  "query_Builder q = NewBuilder
     \<lparr>NamespaceParam := namespace q, DefaultNamespace := True,
      AllNamespaces := allNamespaces q,
      FilenameParam := Some (enforceNamespace q, filenames q),
      LabelSelectorParam := Some (selector q),
      FieldSelectorParam := Some (fieldSelector q),
      ResourceTypeOrNameArgs := Some (args q), Latest := True\<rparr>"

definition getQueriedResources ::
  "kube \<Rightarrow> ResourceStatusQuery \<Rightarrow> world \<Rightarrow> world \<times> (go_error + Info list)" where
  "getQueriedResources k q w =
     (case resolveResourceInfos (Do k (query_Builder q)) of
        Inl err \<Rightarrow> (w, Inl (WithMessage err ''Failed getting resource infos''))
      | Inr resourceInfos \<Rightarrow>
          (if length resourceInfos = 0 then
             (if \<not> allNamespaces q \<and> namespace q \<noteq> '''' then
                (Printf (''No resources found in '' @ namespace q @ '' namespace'' @ newline) w,
                 Inr resourceInfos)
              else (Printf (''No resources found.'' @ newline) w, Inr resourceInfos))
           else (w, Inr resourceInfos)))"

section \<open>Rendering one object\<close>

text \<open>
  Modelled from the spec: the entries that \<open>funcMap\<close> holds for the data functions before
  a query is bound (the declaration of \<open>funcMap\<close> and \<open>getFuncMap\<close> are not in the file).
  The specification says that for a local file all live-cluster data functions are
  reduced to no-ops, whose calls return empty results rather than failing: an empty
  sequence of objects, the empty text, an empty mapping.
\<close>

definition placeholder :: "data_func \<Rightarrow> val" where
  "placeholder f =
     (case f of
        kubeGet \<Rightarrow> VSlice []
      | kubeGetByLabelsMap \<Rightarrow> VSlice []
      | kubeGetServicesMatchingPod \<Rightarrow> VSlice []
      | kubeGetFirst \<Rightarrow> VStr ''''
      | includeObj \<Rightarrow> VStr ''''
      | includeOwners \<Rightarrow> VStr ''''
      | getEvents \<Rightarrow> VMap [])"

text \<open>An empty result: nil, a zero, an empty text, sequence or mapping.\<close>

definition is_empty :: "val \<Rightarrow> bool" where
  "is_empty v =
     (case v of
        VNil \<Rightarrow> True
      | VBool b \<Rightarrow> \<not> b
      | VInt n \<Rightarrow> n = 0
      | VFloat x \<Rightarrow> x = 0
      | VStr s \<Rightarrow> s = []
      | VSlice xs \<Rightarrow> xs = []
      | VMap m \<Rightarrow> m = [])"

text \<open>
  Running an execution against the function map: a call of a function bound to a query
  is recorded and answered by the cluster; when it fails, rendering stops with the text
  written so far and the error.
\<close>

primrec run :: "kube \<Rightarrow> exec \<Rightarrow> world \<Rightarrow> world \<times> string \<times> go_error option" where
  "run k (Done s e) w = (w, s, e)"
| "run k (Call pre f a cont) w =
     (case funcMap w f of
        None \<Rightarrow> (case run k (cont (placeholder f)) w of (w', s, e) \<Rightarrow> (w', pre @ s, e))
      | Some q \<Rightarrow>
          (case call k q f a of
             Inl err \<Rightarrow> (record_event (BoundCall q f a) w, pre, Some err)
           | Inr v \<Rightarrow>
               (case run k (cont v) (record_event (BoundCall q f a) w) of
                  (w', s, e) \<Rightarrow> (w', pre @ s, e))))"

text \<open>
  \<^verbatim>\<open>
  func getTemplate() (string, error) {
      statikFS, err := sfs.New()
      if err != nil { return "", errors.WithMessage(err, "Failed initiating statikFS") }
      templatesFile := "/templates.tmpl"
      t, err := statikFS.Open(templatesFile)
      if err != nil { return "", errors.WithMessage(err, "Failed opening template from statikFS") }
      defer t.Close()
      contents, err := ioutil.ReadAll(t)
      if err != nil { return "", errors.WithMessage(err, "Failed reading template from statikFS") }
      return string(contents), nil
  }
  \<close>
\<close>

definition getTemplate :: "kube \<Rightarrow> go_error + string" where
  "getTemplate k =
     (case sfs_New k of
        Some err \<Rightarrow> Inl (WithMessage err ''Failed initiating statikFS'')
      | None \<Rightarrow>
          (let templatesFile = ''/templates.tmpl'' in
           case statikFS_Open k templatesFile of
             Some err \<Rightarrow> Inl (WithMessage err ''Failed opening template from statikFS'')
           | None \<Rightarrow>
               (case ReadAll k templatesFile of
                  Inl err \<Rightarrow> Inl (WithMessage err ''Failed reading template from statikFS'')
                | Inr contents \<Rightarrow> Inr contents)))"

definition getParsedTemplates :: "kube \<Rightarrow> go_error + rule Template" where
  "getParsedTemplates k =
     (case getTemplate k of
        Inl err \<Rightarrow> Inl err
      | Inr templateText \<Rightarrow>
          (case Parse k templateText of Inl err \<Rightarrow> Inl err | Inr tmpl \<Rightarrow> Inr tmpl))"

text \<open>
  \<open>tmpl.ExecuteTemplate(wr, name, v)\<close> fails when no template has the name, and otherwise
  executes the template on \<open>v\<close>. The error message quotes the two names, as \<open>%q\<close> does for
  names without special characters.
\<close>

definition quote :: "string \<Rightarrow> string" where
  "quote s = CHR 0x22 # s @ [CHR 0x22]"

definition ExecuteTemplate ::
  "kube \<Rightarrow> rule Template \<Rightarrow> string \<Rightarrow> tree \<Rightarrow> world \<Rightarrow> world \<times> string \<times> go_error option" where
  "ExecuteTemplate k tmpl name v w =
     (case Lookup tmpl name of
        None \<Rightarrow>
          (w, '''',
           Some (''template: no template '' @ quote name @ '' associated with template ''
                   @ quote ''templates.tmpl''))
      | Some body \<Rightarrow> run k (body v) w)"

text \<open>
  \<^verbatim>\<open>
  func renderTemplateForMap(wr io.Writer, v map[string]interface{}, queries ...*ResourceStatusQuery) error {
      if len(queries) > 0 {
          query := queries[0]
          funcMap["kubeGet"] = query.GetKubeGetFunc()
          funcMap["kubeGetByLabelsMap"] = query.GetKubeGetByLabelsMapFunc()
          funcMap["kubeGetServicesMatchingPod"] = query.GetKubeGetServicesMatchingPod()
          funcMap["kubeGetFirst"] = query.GetKubeGetFirstFunc()
          funcMap["includeObj"] = query.GetIncludeObjFunc()
          funcMap["includeOwners"] = query.GetIncludeOwnersFunc()
          funcMap["getEvents"] = query.getGetEventsFunc()
      }
      tmpl, err := getParsedTemplates()
      if err != nil { return err }
      objKind := v["kind"].(string)
      kindTemplateName := findTemplateName(tmpl, objKind)
      return tmpl.ExecuteTemplate(wr, kindTemplateName, v)
  }
  \<close>
  The text written to \<open>wr\<close> is returned with the error. The type assertion on
  \<open>v["kind"]\<close> panics unless the key holds a string.
\<close>

definition bind_query :: "ResourceStatusQuery \<Rightarrow> world \<Rightarrow> world" where
  "bind_query query w =
     w\<lparr>funcMap := (funcMap w)
         (kubeGet \<mapsto> query, kubeGetByLabelsMap \<mapsto> query,
          kubeGetServicesMatchingPod \<mapsto> query, kubeGetFirst \<mapsto> query,
          includeObj \<mapsto> query, includeOwners \<mapsto> query, getEvents \<mapsto> query)\<rparr>"

definition renderTemplateForMap ::
  "kube \<Rightarrow> tree \<Rightarrow> ResourceStatusQuery list \<Rightarrow> world
     \<Rightarrow> world \<times> (panic + string \<times> go_error option)" where
  "renderTemplateForMap k v queries w =
     (let w1 = (if length queries > 0 then bind_query (queries ! 0) w else w) in
      case getParsedTemplates k of
        Inl err \<Rightarrow> (w1, Inr ('''', Some err))
      | Inr tmpl \<Rightarrow>
          (case map_of v ''kind'' of
             Some (VStr objKind) \<Rightarrow>
               (case ExecuteTemplate k tmpl (findTemplateName tmpl objKind) v w1 of
                  (w2, output, err) \<Rightarrow> (w2, Inr (output, err)))
           | _ \<Rightarrow> (w1, Inl InterfaceConversion)))"

text \<open>
  \<^verbatim>\<open>
  func (q ResourceStatusQuery) RenderResource(obj runtime.Object) (string, error) {
      out, err := runtime.DefaultUnstructuredConverter.ToUnstructured(obj)
      if err != nil { return "", errors.WithMessage(err, "Failed getting unstructured object") }
      restConfig, err := q.clientGetter.ToRESTConfig()
      if err != nil { return "", errors.WithMessage(err, "Failed getting rest config") }
      kindInjectFuncMap := map[string][]func(...) error{
          "Node":        {includePodDetailsOnNode, includeNodeStatsSummary},
          "Pod":         {includePodMetrics},
          "StatefulSet": {includeStatefulSetDiff},
          "Ingress":     {includeIngressServices},
      }
      kind := obj.GetObjectKind().GroupVersionKind().Kind
      functions := kindInjectFuncMap[kind]
      for _, f := range functions {
          err = f(obj, restConfig, out)
          if err != nil { return "", err }
      }
      var output bytes.Buffer
      err = renderTemplateForMap(&output, out, &q)
      renderOutput := output.String()
      return renderOutput, err
  }
  \<close>
  A function of the list changes \<open>out\<close> in place; here it returns the changed tree.
\<close>

definition kindInjectFuncMap :: "(string \<times> inject_func list) list" where
  "kindInjectFuncMap =
     [(''Node'', [includePodDetailsOnNode, includeNodeStatsSummary]),
      (''Pod'', [includePodMetrics]),
      (''StatefulSet'', [includeStatefulSetDiff]),
      (''Ingress'', [includeIngressServices])]"

definition functions_of :: "string \<Rightarrow> inject_func list" where
  "functions_of kind = (case map_of kindInjectFuncMap kind of None \<Rightarrow> [] | Some fs \<Rightarrow> fs)"

fun run_functions ::
  "kube \<Rightarrow> inject_func list \<Rightarrow> runtime_Object \<Rightarrow> rest_Config \<Rightarrow> tree \<Rightarrow> world
     \<Rightarrow> world \<times> (go_error + tree)" where
  "run_functions k [] obj restConfig out w = (w, Inr out)"
| "run_functions k (f # functions) obj restConfig out w =
     (case inject k f obj restConfig out of
        Inl err \<Rightarrow> (record_event (Invoked f) w, Inl err)
      | Inr out' \<Rightarrow> run_functions k functions obj restConfig out' (record_event (Invoked f) w))"

definition RenderResource ::
  "kube \<Rightarrow> ResourceStatusQuery \<Rightarrow> runtime_Object \<Rightarrow> world
     \<Rightarrow> world \<times> (panic + string \<times> go_error option)" where
  "RenderResource k q obj w =
     (case ToUnstructured k obj of
        Inl err \<Rightarrow> (w, Inr ('''', Some (WithMessage err ''Failed getting unstructured object'')))
      | Inr out \<Rightarrow>
          (case ToRESTConfig k of
             Inl err \<Rightarrow> (w, Inr ('''', Some (WithMessage err ''Failed getting rest config'')))
           | Inr restConfig \<Rightarrow>
               (let kind = ObjectKind obj; functions = functions_of kind in
                case run_functions k functions obj restConfig out w of
                  (w1, Inl err) \<Rightarrow> (w1, Inr ('''', Some err))
                | (w1, Inr out') \<Rightarrow> renderTemplateForMap k out' [q] w1)))"

section \<open>Rendering and printing the resources of a query\<close>

text \<open>
  \<^verbatim>\<open>
  func (q ResourceStatusQuery) PrintRenderedResource(resourceInfo *resource.Info) error {
      renderOutput, err := q.RenderResource(resourceInfo.Object)
      fmt.Printf("\n%s\n", renderOutput)
      return err
  }
  \<close>
\<close>

definition PrintRenderedResource ::
  "kube \<Rightarrow> ResourceStatusQuery \<Rightarrow> Info \<Rightarrow> world \<Rightarrow> world \<times> (panic + go_error option)" where
  "PrintRenderedResource k q resourceInfo w =
     (case RenderResource k q (Object resourceInfo) w of
        (w1, Inl p) \<Rightarrow> (w1, Inl p)
      | (w1, Inr (renderOutput, err)) \<Rightarrow>
          (Printf (newline @ renderOutput @ newline) w1, Inr err))"

text \<open>
  \<^verbatim>\<open>
  func (q ResourceStatusQuery) PrintRenderedResourceInfos(resourceInfos []*resource.Info) []error {
      var allRenderErrs []error
      for _, resourceInfo := range resourceInfos {
          err := q.PrintRenderedResource(resourceInfo)
          if err != nil { allRenderErrs = append(allRenderErrs, err) }
      }
      return allRenderErrs
  }
  \<close>
\<close>

fun PrintRenderedResourceInfos_loop ::
  "kube \<Rightarrow> ResourceStatusQuery \<Rightarrow> Info list \<Rightarrow> go_error list \<Rightarrow> world
     \<Rightarrow> world \<times> (panic + go_error list)" where
  "PrintRenderedResourceInfos_loop k q [] allRenderErrs w = (w, Inr allRenderErrs)"
| "PrintRenderedResourceInfos_loop k q (resourceInfo # resourceInfos) allRenderErrs w =
     (case PrintRenderedResource k q resourceInfo w of
        (w1, Inl p) \<Rightarrow> (w1, Inl p)
      | (w1, Inr None) \<Rightarrow> PrintRenderedResourceInfos_loop k q resourceInfos allRenderErrs w1
      | (w1, Inr (Some err)) \<Rightarrow>
          PrintRenderedResourceInfos_loop k q resourceInfos (allRenderErrs @ [err]) w1)"

definition PrintRenderedResourceInfos ::
  "kube \<Rightarrow> ResourceStatusQuery \<Rightarrow> Info list \<Rightarrow> world \<Rightarrow> world \<times> (panic + go_error list)" where
  "PrintRenderedResourceInfos k q resourceInfos w =
     PrintRenderedResourceInfos_loop k q resourceInfos [] w"

text \<open>
  \<^verbatim>\<open>
  func (q ResourceStatusQuery) PrintRenderedQueriedResources() []error {
      resourceInfos, err := q.getQueriedResources()
      if err != nil { return []error{err} }
      return q.PrintRenderedResourceInfos(resourceInfos)
  }
  \<close>
\<close>

definition PrintRenderedQueriedResources ::
  "kube \<Rightarrow> ResourceStatusQuery \<Rightarrow> world \<Rightarrow> world \<times> (panic + go_error list)" where
  "PrintRenderedQueriedResources k q w =
     (case getQueriedResources k q w of
        (w1, Inl err) \<Rightarrow> (w1, Inr [err])
      | (w1, Inr resourceInfos) \<Rightarrow> PrintRenderedResourceInfos k q resourceInfos w1)"

section \<open>Rendering a local file\<close>

text \<open>
  \<^verbatim>\<open>
  func RenderFile(manifestFilename string) (string, error) {
      var out map[string]interface{}
      manifestFile, _ := ioutil.ReadFile(manifestFilename)
      err := kyaml.Unmarshal(manifestFile, &out)
      if err != nil { return "", errors.WithMessage(err, "Failed getting JSON for object") }
      var output bytes.Buffer
      err = renderTemplateForMap(&output, out)
      if err != nil { return "", err }
      return output.String(), nil
  }
  \<close>
  The error of \<open>ReadFile\<close> is dropped; \<open>ReadFile k\<close> gives the bytes that are decoded.
\<close>

definition RenderFile ::
  "kube \<Rightarrow> string \<Rightarrow> world \<Rightarrow> world \<times> (panic + string \<times> go_error option)" where
  "RenderFile k manifestFilename w =
     (let manifestFile = ReadFile k manifestFilename in
      case Unmarshal k manifestFile of
        Inl err \<Rightarrow> (w, Inr ('''', Some (WithMessage err ''Failed getting JSON for object'')))
      | Inr out \<Rightarrow>
          (case renderTemplateForMap k out [] w of
             (w1, Inl p) \<Rightarrow> (w1, Inl p)
           | (w1, Inr (output, Some err)) \<Rightarrow> (w1, Inr ('''', Some err))
           | (w1, Inr (output, None)) \<Rightarrow> (w1, Inr (output, None))))"

section \<open>The data functions bound to a query\<close>

text \<open>
  \<^verbatim>\<open>
  func (q ResourceStatusQuery) GetKubeGetByLabelsMapFunc() func(string, string, map[string]interface{}) []interface{} {
      return func(namespace, kind string, labels map[string]interface{}) []interface{} {
          var labelPairs []string
          for k, v := range labels {
              labelPairs = append(labelPairs, fmt.Sprintf("%s=%s", k, v))
          }
          selector := strings.Join(labelPairs, ",")
          resourceResult := resource.NewBuilder(q.clientGetter).Unstructured().
              NamespaceParam(q.namespace).LabelSelectorParam(selector).
              ContinueOnError().Latest().Flatten().Do()
          resourceInfos, _ := q.resolveResourceInfos(resourceResult)
          var out []interface{}
          for _, resourceInfo := range resourceInfos {
              obj := resourceInfo.Object
              unstructuredObj, _ := runtime.DefaultUnstructuredConverter.ToUnstructured(obj)
              out = append(out, unstructuredObj)
          }
          return out
      }
  }
  \<close>
  The errors are dropped: a failed resolution leaves no infos, a failed conversion leaves
  the nil map.
\<close>

definition GetKubeGetByLabelsMapFunc ::
  "kube \<Rightarrow> ResourceStatusQuery \<Rightarrow> string \<Rightarrow> string \<Rightarrow> tree \<Rightarrow> tree list" where
  "GetKubeGetByLabelsMapFunc k q ns kind labels =
     (let labelPairs = map (\<lambda>(key, v). key @ ''='' @ Sprintf_s k v) labels;
          selector' = Join labelPairs '','';
          resourceResult = Do k (NewBuilder
            \<lparr>NamespaceParam := namespace q, LabelSelectorParam := Some selector',
             Latest := True\<rparr>);
          resourceInfos = (case resolveResourceInfos resourceResult of
                             Inl err \<Rightarrow> [] | Inr infos \<Rightarrow> infos)
      in map (\<lambda>resourceInfo.
                case ToUnstructured k (Object resourceInfo) of
                  Inl err \<Rightarrow> [] | Inr unstructuredObj \<Rightarrow> unstructuredObj)
           resourceInfos)"

text \<open>
  \<^verbatim>\<open>
  func (q ResourceStatusQuery) GetKubeGetServicesMatchingPod() func(map[string]interface{}) []interface{} {
      return func(podMap map[string]interface{}) []interface{} {
          var pod v1.Pod
          _ = runtime.DefaultUnstructuredConverter.FromUnstructured(podMap, &pod)
          restConfig, _ := q.clientGetter.ToRESTConfig()
          clientSet, _ := kubernetes.NewForConfig(restConfig)
          svcs, _ := clientSet.CoreV1().Services(q.namespace).List(context.TODO(), metav1.ListOptions{})
          var out []interface{}
          for _, svc := range svcs.Items {
              if svc.Spec.Type == "ExternalName" { continue }
              if isSubset(svc.Spec.Selector, pod.Labels) {
                  svc.SetGroupVersionKind(schema.GroupVersionKind{Version: "v1", Kind: "Service"})
                  svcUnstructured, _ := runtime.DefaultUnstructuredConverter.ToUnstructured(&svc)
                  out = append(out, svcUnstructured)
              }
          }
          return out
      }
  }
  \<close>
  \<open>PodLabels k podMap\<close> is \<open>pod.Labels\<close> after the conversion, \<open>ListServices k ns\<close> the items
  listed in the namespace (none when listing fails). The errors of \<open>ToRESTConfig\<close> and
  \<open>NewForConfig\<close> are dropped: without a configuration \<open>NewForConfig\<close> dereferences nil.
\<close>

fun matching_services :: "go_map \<Rightarrow> Service list \<Rightarrow> Service list \<Rightarrow> Service list" where
  "matching_services labels [] out = out"
| "matching_services labels (svc # items) out =
     (if Type svc = ''ExternalName'' then matching_services labels items out
      else if isSubset (Selector svc) labels then matching_services labels items (out @ [svc])
      else matching_services labels items out)"

definition GetKubeGetServicesMatchingPod ::
  "kube \<Rightarrow> ResourceStatusQuery \<Rightarrow> tree \<Rightarrow> panic + tree list" where
  "GetKubeGetServicesMatchingPod k q podMap =
     (case ToRESTConfig k of
        Inl err \<Rightarrow> Inl NilPointerDereference
      | Inr restConfig \<Rightarrow>
          Inr (map (ServiceToUnstructured k)
                 (matching_services (PodLabels k podMap) (ListServices k (namespace q)) [])))"

text \<open>
  The accessors of \<open>unstructured.Unstructured\<close>: a nested field is found when every key
  of the path is present in a map; a nested string is empty unless a string is found;
  the owner references are those of the slice at \<open>metadata.ownerReferences\<close>, and none
  when it is absent or not a slice of maps.
\<close>

fun NestedField :: "tree \<Rightarrow> string list \<Rightarrow> val option" where
  "NestedField obj [] = Some (VMap obj)"
| "NestedField obj [field] = map_of obj field"
| "NestedField obj (field # rest) =
     (case map_of obj field of Some (VMap m) \<Rightarrow> NestedField m rest | _ \<Rightarrow> None)"

definition getNestedString :: "tree \<Rightarrow> string list \<Rightarrow> string" where
  "getNestedString obj path =
     (case NestedField obj path of Some (VStr s) \<Rightarrow> s | _ \<Rightarrow> '''')"

definition GetNamespace :: "tree \<Rightarrow> string" where
  "GetNamespace obj = getNestedString obj [''metadata'', ''namespace'']"

record OwnerReference =
  Kind :: string
  Name :: string

fun extractOwnerReference :: "val \<Rightarrow> OwnerReference option" where
  "extractOwnerReference (VMap v) =
     Some \<lparr>Kind = getNestedString v [''kind''], Name = getNestedString v [''name'']\<rparr>"
| "extractOwnerReference _ = None"

definition GetOwnerReferences :: "tree \<Rightarrow> OwnerReference list" where
  "GetOwnerReferences obj =
     (case NestedField obj [''metadata'', ''ownerReferences''] of
        Some (VSlice original) \<Rightarrow>
          (if list_all (\<lambda>x. extractOwnerReference x \<noteq> None) original
           then map (\<lambda>x. the (extractOwnerReference x)) original else [])
      | _ \<Rightarrow> [])"

text \<open>
  \<^verbatim>\<open>
  func (q ResourceStatusQuery) getResourceQueryResults(namespace string, args []string) *resource.Result {
      return resource.NewBuilder(q.clientGetter).Unstructured().NamespaceParam(namespace).
          ResourceTypeOrNameArgs(true, args...).ContinueOnError().Flatten().Do()
  }

  func (q ResourceStatusQuery) GetIncludeObjFunc() func(string, ...string) string {
      return func(namespace string, args ...string) string {
          if namespace == "" && len(args) == 0 { return "" }
          resourceInfos, err := q.resolveResourceInfos(q.getResourceQueryResults(namespace, args))
          if err != nil { return "" }
          var runtimeObjList []runtime.Object
          for _, resourceInfo := range resourceInfos {
              runtimeObjList = append(runtimeObjList, resourceInfo.Object)
          }
          get.NewRuntimeSorter(runtimeObjList, ".metadata.creationTimestamp").Sort()
          output := ""
          for _, resourceInfo := range runtimeObjList {
              renderOutput, _ := q.RenderResource(resourceInfo)
              output = fmt.Sprintf("%s\n%s", output, renderOutput)
          }
          return output
      }
  }
  \<close>
  The sorter of kubectl is a parameter.
\<close>

definition getResourceQueryResults :: "kube \<Rightarrow> string \<Rightarrow> string list \<Rightarrow> Result" where
  "getResourceQueryResults k ns arguments =
     Do k (NewBuilder\<lparr>NamespaceParam := ns, ResourceTypeOrNameArgs := Some arguments\<rparr>)"

fun includeObj_loop ::
  "kube \<Rightarrow> ResourceStatusQuery \<Rightarrow> runtime_Object list \<Rightarrow> string \<Rightarrow> world
     \<Rightarrow> world \<times> (panic + string)" where
  "includeObj_loop k q [] output w = (w, Inr output)"
| "includeObj_loop k q (resourceInfo # runtimeObjList) output w =
     (case RenderResource k q resourceInfo w of
        (w1, Inl p) \<Rightarrow> (w1, Inl p)
      | (w1, Inr (renderOutput, err)) \<Rightarrow>
          includeObj_loop k q runtimeObjList (output @ newline @ renderOutput) w1)"

definition GetIncludeObjFunc ::
  "kube \<Rightarrow> (runtime_Object list \<Rightarrow> runtime_Object list) \<Rightarrow> ResourceStatusQuery
     \<Rightarrow> string \<Rightarrow> string list \<Rightarrow> world \<Rightarrow> world \<times> (panic + string)" where
  "GetIncludeObjFunc k Sort q ns arguments w =
     (if ns = '''' \<and> length arguments = 0 then (w, Inr '''')
      else
        (case resolveResourceInfos (getResourceQueryResults k ns arguments) of
           Inl err \<Rightarrow> (w, Inr '''')
         | Inr resourceInfos \<Rightarrow>
             includeObj_loop k q (Sort (map Object resourceInfos)) '''' w))"

text \<open>
  \<^verbatim>\<open>
  func (q ResourceStatusQuery) GetIncludeOwnersFunc() func(map[string]interface{}) string {
      return func(obj map[string]interface{}) string {
          unstructuredObj := unstructured.Unstructured{Object: obj}
          owners := unstructuredObj.GetOwnerReferences()
          owner := owners[0] // TODO: We should pick the one with controller, but using first item addresses most cases if not all.
          includeObjFunc := q.GetIncludeObjFunc()
          return includeObjFunc(unstructuredObj.GetNamespace(), owner.Kind, owner.Name)
      }
  }
  \<close>
  Indexing an empty slice panics.
\<close>

definition GetIncludeOwnersFunc ::
  "kube \<Rightarrow> (runtime_Object list \<Rightarrow> runtime_Object list) \<Rightarrow> ResourceStatusQuery
     \<Rightarrow> tree \<Rightarrow> world \<Rightarrow> world \<times> (panic + string)" where
  "GetIncludeOwnersFunc k Sort q obj w =
     (case GetOwnerReferences obj of
        [] \<Rightarrow> (w, Inl IndexOutOfRange)
      | owner # _ \<Rightarrow> GetIncludeObjFunc k Sort q (GetNamespace obj) [Kind owner, Name owner] w)"

section \<open>The replica banners of the Deployment template\<close>

text \<open>
  The counters of a Deployment's status that the template reads. The API declares them
  as integers. In the tree each is absent or a number as its decoder left it: an
  \<open>int64\<close> when the object comes from the cluster, a \<open>float64\<close> when \<open>RenderFile\<close> decodes a
  manifest with \<open>kyaml.Unmarshal\<close>. A \<open>float64\<close> that a decoder yields is finite; it is
  given by its value.
\<close>

datatype number = Int64 "64 word" | Float64 real

record DeploymentStatus =
  replicas :: "number option"
  readyReplicas :: "number option"
  availableReplicas :: "number option"
  updatedReplicas :: "number option"
  unavailableReplicas :: "number option"

text \<open>
  The functions of the template, on numbers. The truth of a pipeline value: a field that
  is absent is false, a number is true unless it is zero. \<open>default\<close> of sprig yields the
  default when the given value is empty, that is absent or zero; the default \<open>0\<close> of the
  template is an integer. \<open>ne\<close> of \<open>text/template\<close> compares two integers or two floats,
  and fails on an integer against a float.
\<close>

definition is_zero :: "number \<Rightarrow> bool" where
  "is_zero n = (case n of Int64 i \<Rightarrow> i = 0 | Float64 x \<Rightarrow> x = 0)"

definition truth :: "number option \<Rightarrow> bool" where
  "truth v = (case v of None \<Rightarrow> False | Some n \<Rightarrow> \<not> is_zero n)"

definition dfault :: "number \<Rightarrow> number option \<Rightarrow> number" where
  "dfault d given = (case given of None \<Rightarrow> d | Some n \<Rightarrow> if is_zero n then d else n)"

fun ne :: "number \<Rightarrow> number \<Rightarrow> go_error + bool" where
  "ne (Int64 a) (Int64 b) = Inr (a \<noteq> b)"
| "ne (Float64 x) (Float64 y) = Inr (x \<noteq> y)"
| "ne _ _ = Inl ''error calling ne: incompatible types for comparison''"

text \<open>
  What the template takes from outside this file: the colour functions of the function
  map, and the \<open>int64\<close> that the conversion of Go yields for a float out of the range of
  \<open>int64\<close>, which the language leaves to the implementation.
\<close>

record template_env =
  red :: "string \<Rightarrow> string"
  yellow :: "string \<Rightarrow> string"
  bold :: "string \<Rightarrow> string"
  int64_out_of_range :: "real \<Rightarrow> 64 word"

text \<open>
  \<open>sub\<close> of sprig converts both arguments to \<open>int64\<close>, a float by dropping its fraction,
  and subtracts as \<open>int64\<close>; the result is printed in decimal.
\<close>

definition trunc :: "real \<Rightarrow> int" where
  "trunc x = (if 0 \<le> x then \<lfloor>x\<rfloor> else \<lceil>x\<rceil>)"

definition toInt64 :: "template_env \<Rightarrow> number \<Rightarrow> 64 word" where
  "toInt64 t n =
     (case n of
        Int64 i \<Rightarrow> i
      | Float64 x \<Rightarrow>
          if - (2 ^ 63) \<le> trunc x \<and> trunc x < 2 ^ 63 then word_of_int (trunc x)
          else int64_out_of_range t x)"

definition sub :: "template_env \<Rightarrow> number \<Rightarrow> number \<Rightarrow> 64 word" where
  "sub t a b = toInt64 t a - toInt64 t b"

definition digit :: "nat \<Rightarrow> char" where
  "digit d = ''0123456789'' ! d"

function string_of_nat :: "nat \<Rightarrow> string" where
  "string_of_nat n =
     (if n < 10 then [digit n]
      else string_of_nat (n div 10) @ [digit (n mod 10)])"
  by pat_completeness auto
termination
  by (relation "measure (\<lambda>n. n)") auto

declare string_of_nat.simps [simp del]

definition print_int :: "int \<Rightarrow> string" where
  "print_int i =
     (if i < 0 then CHR ''-'' # string_of_nat (nat (- i)) else string_of_nat (nat i))"

definition print_int64 :: "64 word \<Rightarrow> string" where
  "print_int64 n = print_int (sint n)"

text \<open>
  \<open>nindent n\<close> of sprig starts a new line and indents every line of its argument by
  \<open>n\<close> spaces.
\<close>

definition indent :: "nat \<Rightarrow> string \<Rightarrow> string" where
  "indent spaces v =
     (let pad = replicate spaces CHR '' '' in
      pad @ concat (map (\<lambda>c. if c = CHR 0x0A then CHR 0x0A # pad else [c]) v))"

definition nindent :: "nat \<Rightarrow> string \<Rightarrow> string" where
  "nindent spaces v = newline @ indent spaces v"

text \<open>
  The template is written for a \<open>plugin.RenderableObject\<close>, as its \<open>gotype\<close> comments say,
  and reads it through the exported names \<open>.Status\<close>, \<open>.Object\<close>, \<open>.RolloutStatus\<close>,
  \<open>.Metadata\<close>, \<open>.Kind\<close>, \<open>.Name\<close>, \<open>.Namespace\<close>, \<open>.KubeGet\<close> and \<open>.RenderOptions\<close>. On
  such an object the engine finds exported fields and methods only: the one access
  written in lower case, \<open>.status.unavailableReplicas\<close>, cannot be evaluated, and the
  execution ends there with this error (to which the engine adds the position in the
  template).
\<close>

definition field_status_error :: go_error where
  "field_status_error = ''can't evaluate field status in type plugin.RenderableObject''"

text \<open>
  \<^verbatim>\<open>
  {{- $injectedStatus := .Status }}
  {{- $_ := set $injectedStatus "replicas" ( $injectedStatus.replicas | default 0 ) }}
  {{- $_ := set $injectedStatus "readyReplicas" ( $injectedStatus.readyReplicas | default 0) }}
  {{- $_ := set $injectedStatus "availableReplicas" ( $injectedStatus.availableReplicas | default 0 ) }}
  {{- $_ := set $injectedStatus "updatedReplicas" ( $injectedStatus.updatedReplicas | default 0 ) }}
  {{- $_ := set .Object "status" $injectedStatus }}
  ...
  {{- $rolloutStatus := .RolloutStatus . }}
  ...
  {{- if not .Status.readyReplicas }}
      {{- "Outage" | red | bold | nindent 2 }}: Deployment has no Ready replicas.
  {{- else if ne .Status.replicas .Status.readyReplicas }}
      {{- if $rolloutStatus.done }}
          {{- "Not Ready Replicas" | yellow | bold | nindent 2 }}: {{ sub .Status.replicas .Status.readyReplicas }} replicas are not Ready.
      {{- end }}
  {{- else if .Status.unavailableReplicas }}
      {{- if $rolloutStatus.done }}
          {{- "Unavailable Replicas" | yellow | bold | nindent 2 }}: {{ .status.unavailableReplicas }} replicas are not Available.
      {{- end }}
  {{- end }}
  \<close>
  The first lines store defaults in the status, so \<open>.Status.replicas\<close> and
  \<open>.Status.readyReplicas\<close> are read with their defaults. The result is the text that
  these lines write and the error, if any, that ends the execution: a failing action
  leaves the text written before it.
\<close>

definition Deployment_replica_banners ::
  "template_env \<Rightarrow> DeploymentStatus \<Rightarrow> bool \<Rightarrow> string \<times> go_error option" where
  "Deployment_replica_banners t st done =
     (let Status_replicas = dfault (Int64 0) (replicas st);
          Status_readyReplicas = dfault (Int64 0) (readyReplicas st) in
      if \<not> truth (Some Status_readyReplicas) then
        (nindent 2 (bold t (red t ''Outage'')) @ '': Deployment has no Ready replicas.'', None)
      else
        (case ne Status_replicas Status_readyReplicas of
           Inl err \<Rightarrow> ('''', Some err)
         | Inr differ \<Rightarrow>
             if differ then
               (if done then
                  (nindent 2 (bold t (yellow t ''Not Ready Replicas'')) @ '': ''
                     @ print_int64 (sub t Status_replicas Status_readyReplicas)
                     @ '' replicas are not Ready.'', None)
                else ('''', None))
             else if truth (unavailableReplicas st) then
               (if done then
                  (nindent 2 (bold t (yellow t ''Unavailable Replicas'')) @ '': '',
                   Some field_status_error)
                else ('''', None))
             else ('''', None)))"



section \<open>A small cluster\<close>

text \<open>
  A concrete environment on which the definitions are evaluated: listing the Pods of a
  Node fails there, every other per-kind function succeeds; the template set has a rule
  for Deployments, which calls no data function, and the default rule, which fetches
  the events of the object; the queries of the resource builder find nothing.
\<close>

definition example_Template :: "rule Template" where
  "example_Template =
     [(''Deployment'', \<lambda>v. Done ''Deployment is healthy'' None),
      (''DefaultResource'',
         \<lambda>v. Call ''Events:'' getEvents [VMap v] (\<lambda>events. Done '' none'' None))]"

definition example_kube :: kube where
  "example_kube =
     \<lparr>Do = (\<lambda>b. \<lparr>Err = None, Infos = Inr []\<rparr>),
      ToUnstructured = (\<lambda>obj. Inr (ObjectContent obj)),
      ToRESTConfig = Inr ''https://10.0.0.1:6443'',
      inject = (\<lambda>f obj restConfig out.
         if f = includePodDetailsOnNode then Inl ''pods is forbidden'' else Inr out),
      ListServices = (\<lambda>ns.
         [\<lparr>ServiceName = ''web'', Type = ''ClusterIP'', Selector = [(''app'', ''web'')]\<rparr>,
          \<lparr>ServiceName = ''legacy'', Type = ''ExternalName'', Selector = [(''app'', ''web'')]\<rparr>,
          \<lparr>ServiceName = ''canary'', Type = ''ClusterIP'', Selector = [(''track'', '''')]\<rparr>]),
      ServiceToUnstructured = (\<lambda>svc.
         [(''kind'', VStr ''Service''), (''metadata'', VMap [(''name'', VStr (ServiceName svc))])]),
      PodLabels = (\<lambda>podMap.
         case NestedField podMap [''metadata'', ''labels''] of
           Some (VMap m) \<Rightarrow> map (\<lambda>(key, v). (key, case v of VStr s \<Rightarrow> s | _ \<Rightarrow> '''')) m
         | _ \<Rightarrow> []),
      Sprintf_s = (\<lambda>v. case v of VStr s \<Rightarrow> s | _ \<Rightarrow> ''%!s''),
      sfs_New = None,
      statikFS_Open = (\<lambda>name. None),
      ReadAll = (\<lambda>name. Inr ''{{- define ... }}''),
      Parse = (\<lambda>templateText. Inr example_Template),
      call = (\<lambda>q f a. Inr (VMap [(''items'', VSlice [])])),
      ReadFile = (\<lambda>name.
         if name = ''deployment.yaml'' then ''kind: Deployment'' else ''kind: ConfigMap''),
      Unmarshal = (\<lambda>manifestFile.
         if manifestFile = ''kind: Deployment'' then Inr [(''kind'', VStr ''Deployment'')]
         else Inr [(''kind'', VStr ''ConfigMap'')])\<rparr>"

definition example_query :: ResourceStatusQuery where
  "example_query =
     \<lparr>namespace = '''', allNamespaces = False, enforceNamespace = False, filenames = [],
      selector = '''', fieldSelector = '''', args = [''pods'']\<rparr>"

text \<open>
  The state at the start of the program: nothing printed, no data function bound to a
  query, nothing recorded.
\<close>

definition initial_world :: world where
  "initial_world = \<lparr>stdout = '''', funcMap = (\<lambda>f. None), trace = []\<rparr>"

definition example_Node :: runtime_Object where
  "example_Node =
     \<lparr>ObjectKind = ''Node'',
      ObjectContent = [(''kind'', VStr ''Node''), (''metadata'', VMap [(''name'', VStr ''n1'')])]\<rparr>"

definition example_ConfigMap :: runtime_Object where
  "example_ConfigMap =
     \<lparr>ObjectKind = ''ConfigMap'',
      ObjectContent =
        [(''kind'', VStr ''ConfigMap''),
         (''metadata'', VMap [(''name'', VStr ''settings''), (''ownerReferences'', VSlice [])])]\<rparr>"

text \<open>
  The template functions of a terminal without colours; the conversion of a float out of
  range yields the least \<open>int64\<close>, as on the common processors.
\<close>

definition plain :: template_env where
  "plain = \<lparr>red = (\<lambda>s. s), yellow = (\<lambda>s. s), bold = (\<lambda>s. s),
     int64_out_of_range = (\<lambda>x. - (2 ^ 63))\<rparr>"

definition example_Pod :: tree where
  "example_Pod =
     [(''kind'', VStr ''Pod''),
      (''metadata'', VMap [(''name'', VStr ''web-0''), (''labels'', VMap [(''app'', VStr ''web'')])])]"

section \<open>What the render loop and the file rendering are compared with\<close>

text \<open>
  The outcome of rendering one object of a query: the text and the error of
  \<open>RenderResource\<close>, or its panic. It is taken from the initial state; \<open>RenderResource\<close>
  binds the data functions to its query before any of them is called, so the outcome is
  the same from every state.
\<close>

definition render_outcome ::
  "kube \<Rightarrow> ResourceStatusQuery \<Rightarrow> Info \<Rightarrow> panic + string \<times> go_error option" where
  "render_outcome k q resourceInfo = snd (RenderResource k q (Object resourceInfo) initial_world)"

text \<open>
  For the outcomes of a list of objects: the reports as printed, each between two line
  breaks, and the errors of the objects that failed, in order.
\<close>

definition printed_reports :: "(string \<times> go_error option) list \<Rightarrow> string" where
  "printed_reports rs = concat (map (\<lambda>(renderOutput, err). newline @ renderOutput @ newline) rs)"

definition collected_errors :: "(string \<times> go_error option) list \<Rightarrow> go_error list" where
  "collected_errors rs = List.map_filter snd rs"

text \<open>
  An execution in which every data function is a no-op that returns its empty result:
  no state and no cluster take part.
\<close>

primrec no_op_run :: "exec \<Rightarrow> string \<times> go_error option" where
  "no_op_run (Done s e) = (s, e)"
| "no_op_run (Call pre f a cont) =
     (case no_op_run (cont (placeholder f)) of (s, e) \<Rightarrow> (pre @ s, e))"

section \<open>Properties of isSubset\<close>

lemma isSubset_iff: "isSubset a b = list_all (\<lambda>(k, v). v = go_index b k) a"
  by (induction a) (auto split: if_splits)

lemma isSubset_empty: "isSubset [] b"
  by simp

lemma spec_subset_imp_isSubset: "spec_subset a b \<Longrightarrow> isSubset a b"
  by (induction a) (auto simp: spec_subset_def go_index_def split: if_splits)

lemma isSubset_nonempty_values:
  "list_all (\<lambda>(k, v). v \<noteq> '''') a \<Longrightarrow> isSubset a b = spec_subset a b"
  by (induction a) (auto simp: spec_subset_def go_index_def split: option.splits if_splits)

text \<open>
  C4. \<open>isSubset(a, b)\<close> is claimed to hold exactly when every key of \<open>a\<close> is a key of \<open>b\<close>
  with an equal value. The code compares with \<open>b[k]\<close>, which is the empty string for an
  absent key: for \<open>a = {"x": ""}\<close> and the empty \<open>b\<close> it answers true although \<open>x\<close> is no
  key of \<open>b\<close>.
\<close>

theorem isSubset_absent_key_empty_value:
  "isSubset [(''x'', '''')] [] = True \<and> spec_subset [(''x'', '''')] [] = False"
  by (simp add: go_index_def spec_subset_def)

section \<open>Properties of rule selection\<close>

text \<open>
  C5. Rule selection is a total function of the template set and the kind: when the set
  has a template named exactly as the kind, the kind is returned, and otherwise the
  reserved name \<open>DefaultResource\<close>.
\<close>

theorem findTemplateName_resolves:
  "(Lookup tmpl kind \<noteq> None \<longrightarrow> findTemplateName tmpl kind = kind) \<and>
   (Lookup tmpl kind = None \<longrightarrow> findTemplateName tmpl kind = ''DefaultResource'')"
  by (auto simp: findTemplateName_def)

theorem findTemplateName_resolves_witness:
  "Lookup [(''Deployment'', 1::nat), (''DefaultResource'', 2)] ''Deployment'' \<noteq> None \<and>
   findTemplateName [(''Deployment'', 1::nat), (''DefaultResource'', 2)] ''Deployment'' = ''Deployment'' \<and>
   Lookup [(''Deployment'', 1::nat), (''DefaultResource'', 2)] ''CronJob'' = None \<and>
   findTemplateName [(''Deployment'', 1::nat), (''DefaultResource'', 2)] ''CronJob'' = ''DefaultResource''"
  using findTemplateName_resolves [of "[(''Deployment'', 1::nat), (''DefaultResource'', 2)]" "''Deployment''"]
    findTemplateName_resolves [of "[(''Deployment'', 1::nat), (''DefaultResource'', 2)]" "''CronJob''"]
  by (simp add: Lookup_def)

section \<open>Properties of the replica banners\<close>

lemma nindent_2:
  "nindent 2 s =
     CHR 0x0A # CHR '' '' # CHR '' '' #
       concat (map (\<lambda>c. if c = CHR 0x0A then [CHR 0x0A, CHR '' '', CHR '' ''] else [c]) s)"
  by (simp add: nindent_def indent_def newline_def numeral_2_eq_2)

lemma print_int_1: "print_int 1 = ''1''"
  by (simp add: print_int_def string_of_nat.simps digit_def)

lemma print_int64_1: "print_int64 1 = ''1''"
  by (simp add: print_int64_def print_int_1)




text \<open>
  The template on a tree from the cluster and on a tree from a manifest file: integers
  and floats give the same line.
\<close>

lemma Deployment_replica_banners_plain:
  "Deployment_replica_banners plain
     \<lparr>replicas = Some (Int64 3), readyReplicas = Some (Int64 2),
      availableReplicas = Some (Int64 2), updatedReplicas = Some (Int64 3),
      unavailableReplicas = Some (Int64 1)\<rparr> True =
     (CHR 0x0A # ''  Not Ready Replicas: 1 replicas are not Ready.'', None)"
  by (simp add: Deployment_replica_banners_def dfault_def is_zero_def truth_def sub_def
      toInt64_def print_int64_1 plain_def nindent_2)

lemma Deployment_replica_banners_plain_floats:
  "Deployment_replica_banners plain
     \<lparr>replicas = Some (Float64 3), readyReplicas = Some (Float64 2),
      availableReplicas = Some (Float64 2), updatedReplicas = Some (Float64 3),
      unavailableReplicas = Some (Float64 1)\<rparr> True =
     (CHR 0x0A # ''  Not Ready Replicas: 1 replicas are not Ready.'', None)"
  by (simp add: Deployment_replica_banners_def dfault_def is_zero_def truth_def sub_def
      toInt64_def trunc_def print_int64_1 plain_def nindent_2)



section \<open>Properties of the data functions\<close>

lemma matching_services_filter:
  "matching_services labels svcs out =
     out @ filter (\<lambda>svc. Type svc \<noteq> ''ExternalName'' \<and> isSubset (Selector svc) labels) svcs"
  by (induction svcs arbitrary: out) auto

lemma GetKubeGetServicesMatchingPod_filter:
  "ToRESTConfig k = Inr restConfig \<Longrightarrow>
   GetKubeGetServicesMatchingPod k q podMap =
     Inr (map (ServiceToUnstructured k)
            (filter (\<lambda>svc. Type svc \<noteq> ''ExternalName''
                       \<and> isSubset (Selector svc) (PodLabels k podMap))
               (ListServices k (namespace q))))"
  by (simp add: GetKubeGetServicesMatchingPod_def matching_services_filter)

lemma matching_services_never_ExternalName:
  "svc \<in> set (matching_services labels svcs []) \<Longrightarrow> Type svc \<noteq> ''ExternalName''"
  by (simp add: matching_services_filter)

text \<open>
  C6. The Services returned are claimed to be exactly those whose selector is a subset of
  the Pod's labels, without those of type \<open>ExternalName\<close>. Services of type
  \<open>ExternalName\<close> are never returned, but the selection is made by \<open>isSubset\<close>: in the small
  cluster the Pod has the one label \<open>app=web\<close>, and the Service \<open>canary\<close>, whose selector
  \<open>{"track": ""}\<close> is no subset of these labels, is returned with the Service \<open>web\<close>.
\<close>

theorem GetKubeGetServicesMatchingPod_returns_non_subset:
  "GetKubeGetServicesMatchingPod example_kube example_query example_Pod =
     Inr (map (ServiceToUnstructured example_kube)
       [\<lparr>ServiceName = ''web'', Type = ''ClusterIP'', Selector = [(''app'', ''web'')]\<rparr>,
        \<lparr>ServiceName = ''canary'', Type = ''ClusterIP'', Selector = [(''track'', '''')]\<rparr>]) \<and>
   PodLabels example_kube example_Pod = [(''app'', ''web'')] \<and>
   spec_subset [(''track'', '''')] (PodLabels example_kube example_Pod) = False"
  by (simp add: GetKubeGetServicesMatchingPod_def example_kube_def example_Pod_def
      example_query_def go_index_def spec_subset_def)

text \<open>
  C9. On an object without owner references, whether the list at
  \<open>metadata.ownerReferences\<close> is empty or absent, \<open>includeOwners\<close> panics with an index
  out of range: it returns neither a text nor an error, and nothing is rendered.
\<close>

theorem GetIncludeOwnersFunc_panics:
  "GetOwnerReferences obj = [] \<Longrightarrow>
   GetIncludeOwnersFunc k Sort q obj w = (w, Inl IndexOutOfRange)"
  by (simp add: GetIncludeOwnersFunc_def)

theorem GetIncludeOwnersFunc_panics_witness:
  "NestedField (ObjectContent example_ConfigMap) [''metadata'', ''ownerReferences'']
     = Some (VSlice []) \<and>
   GetOwnerReferences (ObjectContent example_ConfigMap) = [] \<and>
   GetIncludeOwnersFunc example_kube (\<lambda>xs. xs) example_query
     (ObjectContent example_ConfigMap) initial_world = (initial_world, Inl IndexOutOfRange)"
  using GetIncludeOwnersFunc_panics [of "ObjectContent example_ConfigMap" example_kube
      "\<lambda>xs. xs" example_query initial_world]
  by (simp add: GetOwnerReferences_def example_ConfigMap_def)

text \<open>
  C10. The result of \<open>kubeGetByLabelsMap\<close> does not depend on its namespace and kind
  arguments: two calls with the same query and the same labels agree, whatever the
  namespaces and kinds given. The request is built from the namespace of the query.
\<close>

theorem GetKubeGetByLabelsMapFunc_ignores_namespace_and_kind:
  "GetKubeGetByLabelsMapFunc k q ns1 kind1 labels = GetKubeGetByLabelsMapFunc k q ns2 kind2 labels"
  by (simp add: GetKubeGetByLabelsMapFunc_def)

section \<open>Properties of resolving\<close>

text \<open>
  C8. When the resolution succeeds with no object, the query names no namespace and
  does not ask for all namespaces, the notice \<open>No resources found.\<close> is printed on a line
  and no error is returned, neither by \<open>getQueriedResources\<close> nor by the whole invocation.
\<close>

theorem no_resources_found:
  assumes "resolveResourceInfos (Do k (query_Builder q)) = Inr []"
    and "namespace q = ''''"
    and "\<not> allNamespaces q"
  shows "getQueriedResources k q w = (Printf (''No resources found.'' @ newline) w, Inr []) \<and>
     PrintRenderedQueriedResources k q w
       = (Printf (''No resources found.'' @ newline) w, Inr [])"
  using assms
  by (simp add: getQueriedResources_def PrintRenderedQueriedResources_def
      PrintRenderedResourceInfos_def)

theorem no_resources_found_witness:
  "resolveResourceInfos (Do example_kube (query_Builder example_query)) = Inr [] \<and>
   namespace example_query = '''' \<and> \<not> allNamespaces example_query \<and>
   PrintRenderedQueriedResources example_kube example_query initial_world =
     (\<lparr>stdout = ''No resources found.'' @ newline, funcMap = (\<lambda>f. None), trace = []\<rparr>, Inr [])"
  using no_resources_found [of example_kube example_query initial_world]
  by (simp add: example_kube_def example_query_def initial_world_def
      resolveResourceInfos_def Printf_def)

section \<open>Properties of rendering\<close>

lemma record_event_simps [simp]:
  "stdout (record_event e w) = stdout w"
  "funcMap (record_event e w) = funcMap w"
  "trace (record_event e w) = trace w @ [e]"
  by (simp_all add: record_event_def)



lemma run_functions_ok:
  "run_functions k fs obj cfg out w = (w1, Inr out1) \<Longrightarrow>
   w1 = w\<lparr>trace := trace w @ map Invoked fs\<rparr>"
proof (induction fs arbitrary: out w)
  case Nil
  then show ?case by simp
next
  case (Cons f fs)
  from Cons.prems obtain out' where
    r: "run_functions k fs obj cfg out' (record_event (Invoked f) w) = (w1, Inr out1)"
    by (auto split: sum.splits)
  from Cons.IH [OF r] show ?case
    by (simp add: record_event_def)
qed

lemma run_functions_first_failure:
  "run_functions k pre obj cfg out w = (w1, Inr out1) \<Longrightarrow>
   inject k f obj cfg out1 = Inl err \<Longrightarrow>
   run_functions k (pre @ f # post) obj cfg out w =
     (w\<lparr>trace := trace w @ map Invoked (pre @ [f])\<rparr>, Inl err)"
proof (induction pre arbitrary: out w)
  case Nil
  then show ?case by (simp add: record_event_def)
next
  case (Cons g pre)
  from Cons.prems(1) obtain out' where
    g: "inject k g obj cfg out = Inr out'" and
    r: "run_functions k pre obj cfg out' (record_event (Invoked g) w) = (w1, Inr out1)"
    by (auto split: sum.splits)
  from Cons.IH [OF r Cons.prems(2)] g show ?case
    by (simp add: record_event_def)
qed

text \<open>
  C2. When the functions registered for the kind of an object are run, each on the tree
  the earlier ones have left, and the first one that fails is \<open>f\<close>, after the functions
  \<open>pre\<close> and before the functions \<open>post\<close>, then \<open>RenderResource\<close> returns the empty text
  with the error of \<open>f\<close> and nothing else, and exactly \<open>pre\<close> and \<open>f\<close> have been invoked, in
  the order of registration: no function of \<open>post\<close> is invoked. For a Node whose Pods
  cannot be listed, only \<open>includePodDetailsOnNode\<close> is invoked.
\<close>

theorem RenderResource_stops_at_first_failure:
  assumes "ToUnstructured k obj = Inr out"
    and "ToRESTConfig k = Inr restConfig"
    and "functions_of (ObjectKind obj) = pre @ f # post"
    and "run_functions k pre obj restConfig out w = (w1, Inr out1)"
    and "inject k f obj restConfig out1 = Inl err"
  shows "RenderResource k q obj w =
     (w\<lparr>trace := trace w @ map Invoked (pre @ [f])\<rparr>, Inr ('''', Some err))"
  using assms run_functions_first_failure [OF assms(4) assms(5), of post]
  by (simp add: RenderResource_def)

theorem RenderResource_stops_at_first_failure_witness:
  "ToUnstructured example_kube example_Node = Inr (ObjectContent example_Node) \<and>
   ToRESTConfig example_kube = Inr ''https://10.0.0.1:6443'' \<and>
   functions_of (ObjectKind example_Node)
     = [] @ includePodDetailsOnNode # [includeNodeStatsSummary] \<and>
   run_functions example_kube [] example_Node ''https://10.0.0.1:6443''
       (ObjectContent example_Node) initial_world
     = (initial_world, Inr (ObjectContent example_Node)) \<and>
   inject example_kube includePodDetailsOnNode example_Node ''https://10.0.0.1:6443''
       (ObjectContent example_Node)
     = Inl ''pods is forbidden'' \<and>
   RenderResource example_kube example_query example_Node initial_world =
     (\<lparr>stdout = '''', funcMap = (\<lambda>f. None), trace = [Invoked includePodDetailsOnNode]\<rparr>,
      Inr ('''', Some ''pods is forbidden''))"
  using RenderResource_stops_at_first_failure [of example_kube example_Node
      "ObjectContent example_Node" "''https://10.0.0.1:6443''" "[]" includePodDetailsOnNode
      "[includeNodeStatsSummary]" initial_world initial_world "ObjectContent example_Node"
      "''pods is forbidden''" example_query]
  by (simp add: example_kube_def example_Node_def functions_of_def kindInjectFuncMap_def
      initial_world_def)

lemma bind_query_simps [simp]:
  "stdout (bind_query q w) = stdout w"
  "funcMap (bind_query q w) = (\<lambda>f. Some q)"
  "trace (bind_query q w) = trace w"
proof -
  show "funcMap (bind_query q w) = (\<lambda>f. Some q)"
  proof
    fix f show "funcMap (bind_query q w) f = Some q"
      by (cases f) (simp_all add: bind_query_def)
  qed
qed (simp_all add: bind_query_def)

lemma run_keeps:
  "stdout (fst (run k e w)) = stdout w \<and> funcMap (fst (run k e w)) = funcMap w"
proof (induction e arbitrary: w)
  case (Done s e)
  then show ?case by simp
next
  case (Call pre f a cont)
  show ?case
  proof (cases "funcMap w f")
    case None
    with Call [of "cont (placeholder f)" w] show ?thesis
      by (simp add: case_prod_beta)
  next
    case (Some q)
    show ?thesis
    proof (cases "call k q f a")
      case (Inl err)
      with Some show ?thesis by simp
    next
      case (Inr v)
      with Some Call [of "cont v" "record_event (BoundCall q f a) w"] show ?thesis
        by (simp add: case_prod_beta)
    qed
  qed
qed

lemma run_outcome:
  "funcMap w = funcMap w' \<Longrightarrow> snd (run k e w) = snd (run k e w')"
proof (induction e arbitrary: w w')
  case (Done s e)
  then show ?case by simp
next
  case (Call pre f a cont)
  show ?case
  proof (cases "funcMap w f")
    case None
    with Call.prems Call.IH [of "cont (placeholder f)" w w'] show ?thesis
      by (simp add: case_prod_beta)
  next
    case (Some q)
    show ?thesis
    proof (cases "call k q f a")
      case (Inl err)
      with Some Call.prems show ?thesis by simp
    next
      case (Inr v)
      with Some Call.prems
        Call.IH [of "cont v" "record_event (BoundCall q f a) w" "record_event (BoundCall q f a) w'"]
      show ?thesis
        by (simp add: case_prod_beta)
    qed
  qed
qed

lemma run_functions_keeps:
  "stdout (fst (run_functions k fs obj cfg out w)) = stdout w \<and>
   funcMap (fst (run_functions k fs obj cfg out w)) = funcMap w"
  by (induction fs arbitrary: out w) (auto split: sum.splits)

lemma run_functions_outcome:
  "snd (run_functions k fs obj cfg out w) = snd (run_functions k fs obj cfg out w')"
  by (induction fs arbitrary: out w w') (auto split: sum.splits)

lemma renderTemplateForMap_query_keeps:
  "stdout (fst (renderTemplateForMap k v [q] w)) = stdout w"
  using run_keeps
  by (auto simp: renderTemplateForMap_def ExecuteTemplate_def Let_def case_prod_beta
      split: sum.splits option.splits val.splits)

lemma renderTemplateForMap_query_outcome:
  "snd (renderTemplateForMap k v [q] w) = snd (renderTemplateForMap k v [q] w')"
proof -
  have "snd (run k e (bind_query q w)) = snd (run k e (bind_query q w'))" for e
    by (rule run_outcome) simp
  then show ?thesis
    by (auto simp: renderTemplateForMap_def ExecuteTemplate_def Let_def case_prod_beta
        split: sum.splits option.splits val.splits)
qed

lemma RenderResource_after_functions:
  assumes "ToUnstructured k obj = Inr out" and "ToRESTConfig k = Inr cfg"
  shows "RenderResource k q obj w =
     (case snd (run_functions k (functions_of (ObjectKind obj)) obj cfg out w) of
        Inl err \<Rightarrow>
          (fst (run_functions k (functions_of (ObjectKind obj)) obj cfg out w),
           Inr ('''', Some err))
      | Inr out' \<Rightarrow>
          renderTemplateForMap k out' [q]
            (fst (run_functions k (functions_of (ObjectKind obj)) obj cfg out w)))"
  using assms
  by (simp add: RenderResource_def Let_def split: prod.splits sum.splits)

lemma RenderResource_keeps_stdout:
  "stdout (fst (RenderResource k q obj w)) = stdout w"
proof (cases "ToUnstructured k obj")
  case (Inl err)
  then show ?thesis by (simp add: RenderResource_def)
next
  case out: (Inr out)
  show ?thesis
  proof (cases "ToRESTConfig k")
    case (Inl err)
    with out show ?thesis by (simp add: RenderResource_def)
  next
    case (Inr cfg)
    show ?thesis
      by (simp add: RenderResource_after_functions [OF out Inr]
          renderTemplateForMap_query_keeps run_functions_keeps split: sum.splits)
  qed
qed

lemma RenderResource_outcome:
  "snd (RenderResource k q obj w) = snd (RenderResource k q obj w')"
proof (cases "ToUnstructured k obj")
  case (Inl err)
  then show ?thesis by (simp add: RenderResource_def)
next
  case out: (Inr out)
  show ?thesis
  proof (cases "ToRESTConfig k")
    case (Inl err)
    with out show ?thesis by (simp add: RenderResource_def)
  next
    case (Inr cfg)
    have "snd (run_functions k (functions_of (ObjectKind obj)) obj cfg out w) =
        snd (run_functions k (functions_of (ObjectKind obj)) obj cfg out w')"
      by (rule run_functions_outcome)
    then show ?thesis
      using renderTemplateForMap_query_outcome
      by (simp add: RenderResource_after_functions [OF out Inr] split: sum.splits)
  qed
qed

lemma RenderResource_render_outcome:
  "snd (RenderResource k q (Object resourceInfo) w) = render_outcome k q resourceInfo"
  unfolding render_outcome_def by (rule RenderResource_outcome)

lemma PrintRenderedResourceInfos_loop_collects:
  "map (render_outcome k q) resourceInfos = map Inr rs \<Longrightarrow>
   snd (PrintRenderedResourceInfos_loop k q resourceInfos allRenderErrs w)
     = Inr (allRenderErrs @ collected_errors rs) \<and>
   stdout (fst (PrintRenderedResourceInfos_loop k q resourceInfos allRenderErrs w))
     = stdout w @ printed_reports rs"
proof (induction resourceInfos arbitrary: rs allRenderErrs w)
  case Nil
  then show ?case by (simp add: collected_errors_def printed_reports_def)
next
  case (Cons resourceInfo resourceInfos)
  from Cons.prems obtain r rs' where rs: "rs = r # rs'"
    and r: "render_outcome k q resourceInfo = Inr r"
    and rest: "map (render_outcome k q) resourceInfos = map Inr rs'"
    by (cases rs) auto
  obtain renderOutput err where re: "r = (renderOutput, err)" by (cases r)
  obtain w1 where rr: "RenderResource k q (Object resourceInfo) w = (w1, Inr (renderOutput, err))"
    using RenderResource_render_outcome [of k q resourceInfo w] r re
    by (cases "RenderResource k q (Object resourceInfo) w") simp
  have w1: "stdout w1 = stdout w"
    using RenderResource_keeps_stdout [of k q "Object resourceInfo" w] rr by simp
  have p: "PrintRenderedResource k q resourceInfo w
      = (Printf (newline @ renderOutput @ newline) w1, Inr err)"
    by (simp add: PrintRenderedResource_def rr)
  show ?case
  proof (cases err)
    case None
    with Cons.IH [OF rest, of allRenderErrs "Printf (newline @ renderOutput @ newline) w1"]
    show ?thesis
      by (simp add: p rs re w1 Printf_def collected_errors_def printed_reports_def)
  next
    case (Some e)
    with Cons.IH [OF rest, of "allRenderErrs @ [e]" "Printf (newline @ renderOutput @ newline) w1"]
    show ?thesis
      by (simp add: p rs re w1 Printf_def collected_errors_def printed_reports_def)
  qed
qed

lemma PrintRenderedQueriedResources_resolved:
  "getQueriedResources k q w = (w1, Inr resourceInfos) \<Longrightarrow>
   PrintRenderedQueriedResources k q w = PrintRenderedResourceInfos k q resourceInfos w1"
  by (simp add: PrintRenderedQueriedResources_def)

lemma collected_errors_empty:
  "collected_errors rs = [] \<longleftrightarrow> list_all (\<lambda>(renderOutput, err). err = None) rs"
  by (induction rs) (auto simp: collected_errors_def split: option.splits)

text \<open>
  C3. For a list of objects none of which makes the rendering panic, with the outcomes
  \<open>rs\<close> of its objects in order: the errors returned are exactly the errors of the
  objects that failed, in order; the report of every object, as far as it got, is
  printed between two line breaks, whatever happened to the objects before it; and the
  list returned is empty exactly when no object failed.
\<close>

theorem PrintRenderedResourceInfos_collects:
  assumes "map (render_outcome k q) resourceInfos = map Inr rs"
  shows "snd (PrintRenderedResourceInfos k q resourceInfos w) = Inr (collected_errors rs) \<and>
     stdout (fst (PrintRenderedResourceInfos k q resourceInfos w))
       = stdout w @ printed_reports rs \<and>
     (snd (PrintRenderedResourceInfos k q resourceInfos w) = Inr []
        \<longleftrightarrow> list_all (\<lambda>(renderOutput, err). err = None) rs)"
  using PrintRenderedResourceInfos_loop_collects [OF assms, of "[]" w]
  by (simp add: PrintRenderedResourceInfos_def collected_errors_empty)

lemma example_outcome_Node: "render_outcome example_kube example_query \<lparr>Object = example_Node\<rparr>
   = Inr ('''', Some ''pods is forbidden'')"
  by (simp add: render_outcome_def RenderResource_def example_kube_def example_Node_def
      functions_of_def kindInjectFuncMap_def)

lemma example_getParsedTemplates: "getParsedTemplates example_kube = Inr example_Template"
  by (simp add: getParsedTemplates_def getTemplate_def example_kube_def)

lemma example_call: "call example_kube q f a = Inr (VMap [(''items'', VSlice [])])"
  by (simp add: example_kube_def)

lemma example_render_ConfigMap:
  "renderTemplateForMap example_kube (ObjectContent example_ConfigMap) [q] w =
     (record_event (BoundCall q getEvents [VMap (ObjectContent example_ConfigMap)]) (bind_query q w),
      Inr (''Events: none'', None))"
proof -
  have kind: "map_of (ObjectContent example_ConfigMap) ''kind'' = Some (VStr ''ConfigMap'')"
    by (simp add: example_ConfigMap_def)
  have name: "findTemplateName example_Template ''ConfigMap'' = ''DefaultResource''"
    by (simp add: findTemplateName_def Lookup_def example_Template_def)
  have rule: "Lookup example_Template ''DefaultResource'' =
      Some (\<lambda>v. Call ''Events:'' getEvents [VMap v] (\<lambda>events. Done '' none'' None))"
    by (simp add: Lookup_def example_Template_def)
  have bound: "funcMap (bind_query q w) getEvents = Some q"
    by (simp add: bind_query_def)
  show ?thesis
    by (simp add: renderTemplateForMap_def example_getParsedTemplates kind name rule
        ExecuteTemplate_def bound example_call)
qed

lemma example_outcome_ConfigMap: "render_outcome example_kube example_query \<lparr>Object = example_ConfigMap\<rparr>
   = Inr (''Events: none'', None)"
proof -
  have f: "functions_of (ObjectKind example_ConfigMap) = []"
    by (simp add: example_ConfigMap_def functions_of_def kindInjectFuncMap_def)
  have u: "ToUnstructured example_kube example_ConfigMap = Inr (ObjectContent example_ConfigMap)"
    by (simp add: example_kube_def)
  have c: "ToRESTConfig example_kube = Inr ''https://10.0.0.1:6443''"
    by (simp add: example_kube_def)
  show ?thesis
    by (simp add: render_outcome_def RenderResource_def u c f example_render_ConfigMap)
qed

theorem PrintRenderedResourceInfos_collects_witness:
  "map (render_outcome example_kube example_query)
      [\<lparr>Object = example_Node\<rparr>, \<lparr>Object = example_ConfigMap\<rparr>]
     = map Inr [('''', Some ''pods is forbidden''), (''Events: none'', None)] \<and>
   snd (PrintRenderedResourceInfos example_kube example_query
      [\<lparr>Object = example_Node\<rparr>, \<lparr>Object = example_ConfigMap\<rparr>] initial_world)
     = Inr [''pods is forbidden''] \<and>
   stdout (fst (PrintRenderedResourceInfos example_kube example_query
      [\<lparr>Object = example_Node\<rparr>, \<lparr>Object = example_ConfigMap\<rparr>] initial_world))
     = newline @ newline @ newline @ ''Events: none'' @ newline \<and>
   snd (PrintRenderedResourceInfos example_kube example_query
      [\<lparr>Object = example_ConfigMap\<rparr>] initial_world) = Inr []"
  using
    PrintRenderedResourceInfos_collects [of example_kube example_query
      "[\<lparr>Object = example_Node\<rparr>, \<lparr>Object = example_ConfigMap\<rparr>]"
      "[('''', Some ''pods is forbidden''), (''Events: none'', None)]" initial_world]
    PrintRenderedResourceInfos_collects [of example_kube example_query
      "[\<lparr>Object = example_ConfigMap\<rparr>]" "[(''Events: none'', None)]" initial_world]
  by (simp add: example_outcome_Node example_outcome_ConfigMap collected_errors_def
      printed_reports_def initial_world_def)

lemma run_no_op:
  "funcMap w = (\<lambda>f. None) \<Longrightarrow> run k e w = (w, no_op_run e)"
  by (induction e) (simp_all add: case_prod_beta)

lemma placeholder_is_empty: "is_empty (placeholder f)"
  by (cases f) (simp_all add: placeholder_def is_empty_def)



lemma RenderFile_after_decoding:
  assumes "Unmarshal k (ReadFile k manifestFilename) = Inr v"
    and "getParsedTemplates k = Inr tmpl"
    and "map_of v ''kind'' = Some (VStr kind)"
    and "Lookup tmpl (findTemplateName tmpl kind) = Some body"
  shows "RenderFile k manifestFilename w =
     (fst (run k (body v) w),
      Inr (case snd (run k (body v) w) of
             (output, None) \<Rightarrow> (output, None)
           | (output, Some err) \<Rightarrow> ('''', Some err)))"
  using assms
  by (simp add: RenderFile_def renderTemplateForMap_def ExecuteTemplate_def case_prod_beta
      split: option.splits)

lemma example_RenderResource_ConfigMap:
  "RenderResource example_kube example_query example_ConfigMap initial_world =
     (\<lparr>stdout = '''', funcMap = (\<lambda>f. Some example_query),
       trace = [BoundCall example_query getEvents [VMap (ObjectContent example_ConfigMap)]]\<rparr>,
      Inr (''Events: none'', None))"
proof -
  have f: "functions_of (ObjectKind example_ConfigMap) = []"
    by (simp add: example_ConfigMap_def functions_of_def kindInjectFuncMap_def)
  have u: "ToUnstructured example_kube example_ConfigMap = Inr (ObjectContent example_ConfigMap)"
    by (simp add: example_kube_def)
  have c: "ToRESTConfig example_kube = Inr ''https://10.0.0.1:6443''"
    by (simp add: example_kube_def)
  have w: "record_event e (bind_query example_query initial_world) =
      \<lparr>stdout = '''', funcMap = (\<lambda>f. Some example_query), trace = [e]\<rparr>" for e
    using bind_query_simps [of example_query initial_world]
    by (simp add: record_event_def initial_world_def bind_query_def)
  show ?thesis
    by (simp add: RenderResource_def u c f example_render_ConfigMap w)
qed

text \<open>
  C7, as stated, fails. The function map is a variable of the package, and rendering a
  file neither binds nor resets it: once an object of a query has been rendered, the
  data functions stay bound to the query. In the small cluster, after the ConfigMap of
  the query has been rendered, rendering the file \<open>configmap.yaml\<close>, whose rule fetches
  the events, calls the function bound to the query: a second cluster read is
  recorded, and the call is answered by the cluster with a result that is not empty.
\<close>

theorem RenderFile_after_query_reads_cluster:
  "RenderResource example_kube example_query example_ConfigMap initial_world =
     (\<lparr>stdout = '''', funcMap = (\<lambda>f. Some example_query),
       trace = [BoundCall example_query getEvents [VMap (ObjectContent example_ConfigMap)]]\<rparr>,
      Inr (''Events: none'', None)) \<and>
   RenderFile example_kube ''configmap.yaml''
     \<lparr>stdout = '''', funcMap = (\<lambda>f. Some example_query),
      trace = [BoundCall example_query getEvents [VMap (ObjectContent example_ConfigMap)]]\<rparr> =
     (\<lparr>stdout = '''', funcMap = (\<lambda>f. Some example_query),
       trace = [BoundCall example_query getEvents [VMap (ObjectContent example_ConfigMap)],
                BoundCall example_query getEvents [VMap [(''kind'', VStr ''ConfigMap'')]]]\<rparr>,
      Inr (''Events: none'', None)) \<and>
   call example_kube example_query getEvents [VMap [(''kind'', VStr ''ConfigMap'')]]
     = Inr (VMap [(''items'', VSlice [])]) \<and>
   is_empty (VMap [(''items'', VSlice [])]) = False"
proof -
  have decoded: "Unmarshal example_kube (ReadFile example_kube ''configmap.yaml'')
      = Inr [(''kind'', VStr ''ConfigMap'')]"
    by (simp add: example_kube_def)
  have rule: "Lookup example_Template (findTemplateName example_Template ''ConfigMap'') =
      Some (\<lambda>v. Call ''Events:'' getEvents [VMap v] (\<lambda>events. Done '' none'' None))"
    by (simp add: findTemplateName_def Lookup_def example_Template_def)
  have "RenderFile example_kube ''configmap.yaml''
      \<lparr>stdout = '''', funcMap = (\<lambda>f. Some example_query),
       trace = [BoundCall example_query getEvents [VMap (ObjectContent example_ConfigMap)]]\<rparr> =
      (\<lparr>stdout = '''', funcMap = (\<lambda>f. Some example_query),
        trace = [BoundCall example_query getEvents [VMap (ObjectContent example_ConfigMap)],
                 BoundCall example_query getEvents [VMap [(''kind'', VStr ''ConfigMap'')]]]\<rparr>,
       Inr (''Events: none'', None))"
    by (simp add: RenderFile_after_decoding [OF decoded example_getParsedTemplates _ rule]
        example_call record_event_def)
  then show ?thesis
    by (simp add: example_RenderResource_ConfigMap example_call is_empty_def)
qed

text \<open>
  C7, amended. Rendering a local file binds no data function to a query and leaves the
  function map as it is. For a manifest that decodes to an object with a kind, with the
  templates parsed and a rule selected: when the rule calls no data function and ends
  without an error, the rendering succeeds with the text of the rule and leaves the
  state as it was, so no cluster read is attempted. When no data function is bound to a
  query, as at the start of the program, every data function is a no-op: for every
  rule the state is left as it was, so no call of a query-bound function is recorded
  and no cluster read is attempted, the outcome is that of the execution with every
  data function a no-op, and a call of a data function is answered with its empty
  result and the execution goes on.
\<close>

theorem RenderFile_uses_no_cluster:
  assumes "Unmarshal k (ReadFile k manifestFilename) = Inr v"
    and "getParsedTemplates k = Inr tmpl"
    and "map_of v ''kind'' = Some (VStr kind)"
    and "Lookup tmpl (findTemplateName tmpl kind) = Some body"
  shows "funcMap (fst (RenderFile k manifestFilename w)) = funcMap w \<and>
     (\<forall>report. body v = Done report None
        \<longrightarrow> RenderFile k manifestFilename w = (w, Inr (report, None))) \<and>
     (funcMap w = (\<lambda>f. None) \<longrightarrow>
        RenderFile k manifestFilename w =
          (w, Inr (case no_op_run (body v) of
                     (output, None) \<Rightarrow> (output, None)
                   | (output, Some err) \<Rightarrow> ('''', Some err))) \<and>
        (\<forall>pre f a cont.
           run k (Call pre f a cont) w
             = (case run k (cont (placeholder f)) w of (w', s, e) \<Rightarrow> (w', pre @ s, e))
           \<and> is_empty (placeholder f)))"
proof -
  have "funcMap (fst (RenderFile k manifestFilename w)) = funcMap w"
    by (simp add: RenderFile_after_decoding [OF assms] run_keeps)
  moreover have "RenderFile k manifestFilename w = (w, Inr (report, None))"
    if "body v = Done report None" for report
    using that by (simp add: RenderFile_after_decoding [OF assms])
  moreover have "RenderFile k manifestFilename w =
      (w, Inr (case no_op_run (body v) of
                 (output, None) \<Rightarrow> (output, None)
               | (output, Some err) \<Rightarrow> ('''', Some err)))"
    if "funcMap w = (\<lambda>f. None)"
    using that by (simp add: RenderFile_after_decoding [OF assms] run_no_op)
  moreover have "run k (Call pre f a cont) w
      = (case run k (cont (placeholder f)) w of (w', s, e) \<Rightarrow> (w', pre @ s, e))"
    if "funcMap w = (\<lambda>f. None)" for pre f a cont
    using that by simp
  ultimately show ?thesis
    by (simp add: placeholder_is_empty)
qed

theorem RenderFile_uses_no_cluster_witness:
  "Unmarshal example_kube (ReadFile example_kube ''deployment.yaml'')
     = Inr [(''kind'', VStr ''Deployment'')] \<and>
   getParsedTemplates example_kube = Inr example_Template \<and>
   Lookup example_Template (findTemplateName example_Template ''Deployment'')
     = Some (\<lambda>v. Done ''Deployment is healthy'' None) \<and>
   funcMap initial_world = (\<lambda>f. None) \<and>
   RenderFile example_kube ''deployment.yaml'' initial_world
     = (initial_world, Inr (''Deployment is healthy'', None)) \<and>
   RenderFile example_kube ''configmap.yaml'' initial_world
     = (initial_world, Inr (''Events: none'', None))"
  using
    RenderFile_uses_no_cluster [of example_kube "''deployment.yaml''"
      "[(''kind'', VStr ''Deployment'')]" example_Template "''Deployment''"
      "\<lambda>v. Done ''Deployment is healthy'' None" initial_world]
    RenderFile_uses_no_cluster [of example_kube "''configmap.yaml''"
      "[(''kind'', VStr ''ConfigMap'')]" example_Template "''ConfigMap''"
      "\<lambda>v. Call ''Events:'' getEvents [VMap v] (\<lambda>events. Done '' none'' None)"
      initial_world]
  by (simp add: example_getParsedTemplates findTemplateName_def Lookup_def example_Template_def)
    (simp add: example_kube_def initial_world_def)

end
